theory Spec2Isabelle
  imports Main
begin

section \<open>Data model\<close>

text \<open>
  A JavaScript error value, as far as the storage service looks at it: both
  \<^verbatim>\<open>catch\<close> blocks of the native strategy read \<^verbatim>\<open>error.name\<close> only.
\<close>

datatype js_error = JsError (error_name: string) (error_message: string)

text \<open>
  A \<^verbatim>\<open>FileSystemFileHandle\<close>: an opaque reference to a place in the file system. The
  service reads its \<^verbatim>\<open>name\<close>; the location tells two handles of the same name apart.
\<close>

datatype file_handle = FileSystemFileHandle (handle_name: string) (handle_location: nat)

text \<open>A \<^verbatim>\<open>File\<close> (a named blob): what a handle, a file input and the codec yield.\<close>

datatype js_file = JsFile (file_name: string) (file_bytes: "nat list")

text \<open>
  \<^verbatim>\<open>ChecklistFile\<close> is declared outside the two source files. The service reads
  \<^verbatim>\<open>metadata?.name\<close> only; everything else of the document is carried along in
  \<open>groups\<close>.
\<close>

datatype checklist_metadata = ChecklistFileMetadata (name: string)

datatype checklist_file =
  ChecklistFile (metadata: "checklist_metadata option") (groups: "string list")

text \<open>
  The JSON format object \<^verbatim>\<open>FORMAT_REGISTRY.getFormat(FormatId.JSON)\<close>. The registry is
  not part of the two source files, so the codec is a parameter: either direction
  yields a value or throws.
\<close>

record codec =
  toProto :: "js_file \<Rightarrow> js_error + checklist_file"
  fromProto :: "checklist_file \<Rightarrow> js_error + js_file"

text \<open>
  What the user does with the hidden file input of the fallback strategy: a
  \<^verbatim>\<open>change\<close> event with the selected files, a \<^verbatim>\<open>cancel\<close> event, or no event at all.
\<close>

datatype input_event = Change "js_file list" | Cancel | NoEvent

text \<open>
  The surroundings of one call, i.e. every answer the browser, the user and the
  codec give while the call runs:
  \<^item> \<open>window\<close>: the property names of the global \<^verbatim>\<open>window\<close>, or \<open>None\<close> when
    \<^verbatim>\<open>typeof window === 'undefined'\<close>;
  \<^item> \<open>document\<close>: whether the global \<^verbatim>\<open>document\<close> exists (reading an undeclared
    global throws a \<^verbatim>\<open>ReferenceError\<close>);
  \<^item> the two pickers: they reject, or resolve to what the caller destructures
    (an array of handles) respectively stores (a handle, or \<^verbatim>\<open>undefined\<close>);
  \<^item> the handle's methods and \<^verbatim>\<open>URL.createObjectURL\<close>, each of which may throw.
\<close>

record env =
  window :: "string list option"
  document :: bool
  jsonFormat :: codec
  showOpenFilePicker :: "js_error + file_handle list"
  showSaveFilePicker :: "js_error + file_handle option"
  getFile :: "file_handle \<Rightarrow> js_error + js_file"
  createWritable :: "file_handle \<Rightarrow> js_error + unit"
  writableWrite :: "file_handle \<Rightarrow> nat list \<Rightarrow> js_error + unit"
  writableClose :: "file_handle \<Rightarrow> js_error + unit"
  createObjectURL :: "js_file \<Rightarrow> js_error + string"
  inputEvent :: input_event

text \<open>The one mutable field of \<^verbatim>\<open>LocalFileStorage\<close>.\<close>

record storage =
  currentFileHandle :: "file_handle option"

text \<open>
  What a call does to the outside world, in order: the dialogs it presents, the
  handle methods it calls, what it logs and what it downloads.
\<close>

datatype event =
    OpenPickerShown
  | SavePickerShown string
  | GetFile file_handle
  | CreateWritable file_handle
  | Write file_handle "nat list"
  | Close file_handle
  | InputClicked
  | ConsoleError string js_error
  | Download string string

text \<open>
  The fate of the promise an \<^verbatim>\<open>async\<close> method returns: resolved with a value, rejected
  with an error (an exception escaped), or never settled.
\<close>

datatype 'a promise = Resolved 'a | Rejected js_error | Pending

text \<open>One call of a method: the storage afterwards, its effects, its promise.\<close>

record 'a call =
  after :: storage
  effects :: "event list"
  outcome :: "'a promise"

section \<open>LocalFileStorage\<close>

definition isFileSystemAccessSupported :: "env \<Rightarrow> bool" where
  "isFileSystemAccessSupported e =
     (case window e of
        None \<Rightarrow> False
      | Some w \<Rightarrow> ''showOpenFilePicker'' \<in> set w \<and> ''showSaveFilePicker'' \<in> set w)"

text \<open>
  The \<^verbatim>\<open>catch\<close> block shared by the two native methods: an error named
  \<^verbatim>\<open>AbortError\<close> becomes the negative result \<open>v\<close>, any other error is thrown again.
\<close>

definition catchAbort :: "'a \<Rightarrow> js_error \<Rightarrow> 'a promise" where
  "catchAbort v error =
     (if error_name error = ''AbortError'' then Resolved v else Rejected error)"

text \<open>
  \<^verbatim>\<open>_openFileWithFSA\<close>. The handle is assigned right after the picker resolves, before
  the file is read and decoded. An empty array destructures to \<^verbatim>\<open>undefined\<close>, which is
  assigned and then fails at \<^verbatim>\<open>fileHandle.getFile()\<close>.
\<close>

definition openFileWithFSA :: "env \<Rightarrow> storage \<Rightarrow> checklist_file option call" where
  "openFileWithFSA e this =
     (case showOpenFilePicker e of
        Inl error \<Rightarrow>
          \<lparr>after = this, effects = [OpenPickerShown], outcome = catchAbort None error\<rparr>
      | Inr [] \<Rightarrow>
          \<lparr>after = this\<lparr>currentFileHandle := None\<rparr>, effects = [OpenPickerShown],
           outcome = catchAbort None
             (JsError ''TypeError'' ''Cannot read properties of undefined'')\<rparr>
      | Inr (fileHandle # _) \<Rightarrow>
          (case getFile e fileHandle of
             Inl error \<Rightarrow>
               \<lparr>after = this\<lparr>currentFileHandle := Some fileHandle\<rparr>,
                effects = [OpenPickerShown, GetFile fileHandle],
                outcome = catchAbort None error\<rparr>
           | Inr file \<Rightarrow>
               (case toProto (jsonFormat e) file of
                  Inl error \<Rightarrow>
                    \<lparr>after = this\<lparr>currentFileHandle := Some fileHandle\<rparr>,
                     effects = [OpenPickerShown, GetFile fileHandle],
                     outcome = catchAbort None error\<rparr>
                | Inr checklistFile \<Rightarrow>
                    \<lparr>after = this\<lparr>currentFileHandle := Some fileHandle\<rparr>,
                     effects = [OpenPickerShown, GetFile fileHandle],
                     outcome = Resolved (Some checklistFile)\<rparr>)))"

text \<open>
  \<^verbatim>\<open>_openFileWithFallback\<close>. The promise has no reject callback: it is rejected only
  when the executor itself throws (no \<^verbatim>\<open>document\<close>), and stays pending when neither
  event fires.
\<close>

definition openFileWithFallback :: "env \<Rightarrow> storage \<Rightarrow> checklist_file option call" where
  "openFileWithFallback e this =
     (if \<not> document e then
        \<lparr>after = this, effects = [],
         outcome = Rejected (JsError ''ReferenceError'' ''document is not defined'')\<rparr>
      else
        (case inputEvent e of
           NoEvent \<Rightarrow> \<lparr>after = this, effects = [InputClicked], outcome = Pending\<rparr>
         | Cancel \<Rightarrow> \<lparr>after = this, effects = [InputClicked], outcome = Resolved None\<rparr>
         | Change [] \<Rightarrow> \<lparr>after = this, effects = [InputClicked], outcome = Resolved None\<rparr>
         | Change (file # _) \<Rightarrow>
             (case toProto (jsonFormat e) file of
                Inr checklistFile \<Rightarrow>
                  \<lparr>after = this, effects = [InputClicked],
                   outcome = Resolved (Some checklistFile)\<rparr>
              | Inl error \<Rightarrow>
                  \<lparr>after = this,
                   effects = [InputClicked, ConsoleError ''Failed to parse file:'' error],
                   outcome = Resolved None\<rparr>)))"

definition openFile :: "env \<Rightarrow> storage \<Rightarrow> checklist_file option call" where
  "openFile e this =
     (if isFileSystemAccessSupported e then openFileWithFSA e this
      else openFileWithFallback e this)"

text \<open>The suggested name: \<^verbatim>\<open>`${checklistFile.metadata?.name || 'checklist'}.json`\<close>.\<close>

definition suggestedName :: "checklist_file \<Rightarrow> string" where
  "suggestedName checklistFile =
     (case metadata checklistFile of
        None \<Rightarrow> ''checklist''
      | Some m \<Rightarrow> if name m = [] then ''checklist'' else name m) @ ''.json''"

text \<open>
  Lines 138 to 154 of \<^verbatim>\<open>_saveFileWithFSA\<close>: the check for a handle, the write and the
  \<^verbatim>\<open>catch\<close> block. \<open>shown\<close> holds the effects of the lines before.
\<close>

definition writeChecklist ::
  "env \<Rightarrow> checklist_file \<Rightarrow> file_handle option \<Rightarrow> storage \<Rightarrow> event list \<Rightarrow> bool call" where
  "writeChecklist e checklistFile fileHandle this shown =
     (case fileHandle of
        None \<Rightarrow>
          \<lparr>after = this, effects = shown,
           outcome = catchAbort False (JsError ''Error'' ''No file handle available'')\<rparr>
      | Some h \<Rightarrow>
          (case createWritable e h of
             Inl error \<Rightarrow>
               \<lparr>after = this, effects = shown @ [CreateWritable h],
                outcome = catchAbort False error\<rparr>
           | Inr _ \<Rightarrow>
               (case fromProto (jsonFormat e) checklistFile of
                  Inl error \<Rightarrow>
                    \<lparr>after = this, effects = shown @ [CreateWritable h],
                     outcome = catchAbort False error\<rparr>
                | Inr blob \<Rightarrow>
                    (case writableWrite e h (file_bytes blob) of
                       Inl error \<Rightarrow>
                         \<lparr>after = this,
                          effects = shown @ [CreateWritable h, Write h (file_bytes blob)],
                          outcome = catchAbort False error\<rparr>
                     | Inr _ \<Rightarrow>
                         (case writableClose e h of
                            Inl error \<Rightarrow>
                              \<lparr>after = this,
                               effects = shown @
                                 [CreateWritable h, Write h (file_bytes blob), Close h],
                               outcome = catchAbort False error\<rparr>
                          | Inr _ \<Rightarrow>
                              \<lparr>after = this,
                               effects = shown @
                                 [CreateWritable h, Write h (file_bytes blob), Close h],
                               outcome = Resolved True\<rparr>)))))"

text \<open>\<^verbatim>\<open>_saveFileWithFSA\<close>: lines 120 to 136, then the write.\<close>

definition saveFileWithFSA :: "env \<Rightarrow> checklist_file \<Rightarrow> bool \<Rightarrow> storage \<Rightarrow> bool call" where
  "saveFileWithFSA e checklistFile saveAs this =
     (if saveAs \<or> currentFileHandle this = None then
        (case showSaveFilePicker e of
           Inl error \<Rightarrow>
             \<lparr>after = this, effects = [SavePickerShown (suggestedName checklistFile)],
              outcome = catchAbort False error\<rparr>
         | Inr fileHandle \<Rightarrow>
             writeChecklist e checklistFile fileHandle
               (this\<lparr>currentFileHandle := fileHandle\<rparr>)
               [SavePickerShown (suggestedName checklistFile)])
      else writeChecklist e checklistFile (currentFileHandle this) this [])"

text \<open>
  \<^verbatim>\<open>_saveFileWithFallback\<close>: one \<^verbatim>\<open>try\<close> block around the encoding and every step of
  the download; whatever is thrown in it is logged and turned into \<^verbatim>\<open>false\<close>.
\<close>

definition saveFileWithFallback :: "env \<Rightarrow> checklist_file \<Rightarrow> storage \<Rightarrow> bool call" where
  "saveFileWithFallback e checklistFile this =
     (case fromProto (jsonFormat e) checklistFile of
        Inl error \<Rightarrow>
          \<lparr>after = this, effects = [ConsoleError ''Failed to save file:'' error],
           outcome = Resolved False\<rparr>
      | Inr blob \<Rightarrow>
          (case createObjectURL e blob of
             Inl error \<Rightarrow>
               \<lparr>after = this, effects = [ConsoleError ''Failed to save file:'' error],
                outcome = Resolved False\<rparr>
           | Inr url \<Rightarrow>
               if \<not> document e then
                 \<lparr>after = this,
                  effects = [ConsoleError ''Failed to save file:''
                    (JsError ''ReferenceError'' ''document is not defined'')],
                  outcome = Resolved False\<rparr>
               else
                 \<lparr>after = this, effects = [Download url (file_name blob)],
                  outcome = Resolved True\<rparr>))"

definition saveFile :: "env \<Rightarrow> checklist_file \<Rightarrow> bool \<Rightarrow> storage \<Rightarrow> bool call" where
  "saveFile e checklistFile saveAs this =
     (if isFileSystemAccessSupported e then saveFileWithFSA e checklistFile saveAs this
      else saveFileWithFallback e checklistFile this)"

definition clearFileHandle :: "storage \<Rightarrow> storage" where
  "clearFileHandle this = this\<lparr>currentFileHandle := None\<rparr>"


definition getCurrentFileName :: "storage \<Rightarrow> string option promise" where
  "getCurrentFileName this =
     (case currentFileHandle this of
        None \<Rightarrow> Resolved None
      | Some h \<Rightarrow> Resolved (Some (handle_name h)))"

text \<open>
  A sequence of calls on one service instance, each with the surroundings it runs
  in. The service is created with no handle.
\<close>

datatype operation =
    IsFileSystemAccessSupported env
  | OpenFile env
  | SaveFile env checklist_file bool
  | ClearFileHandle
  | HasFileHandle
  | GetCurrentFileName

fun step :: "operation \<Rightarrow> storage \<Rightarrow> storage" where
  "step (IsFileSystemAccessSupported e) this = this"
| "step (OpenFile e) this = after (openFile e this)"
| "step (SaveFile e checklistFile saveAs) this = after (saveFile e checklistFile saveAs this)"
| "step ClearFileHandle this = clearFileHandle this"
| "step HasFileHandle this = this"
| "step GetCurrentFileName this = this"

fun run :: "operation list \<Rightarrow> storage \<Rightarrow> storage" where
  "run [] this = this"
| "run (x # xs) this = run xs (step x this)"

definition newLocalFileStorage :: storage where
  "newLocalFileStorage = \<lparr>currentFileHandle = None\<rparr>"





section \<open>ChecklistCommandBarComponent\<close>

text \<open>
  The two outputs the component's own methods emit on. The dialog components are not
  part of the source files: each method takes the fate of the promise its dialog
  returns (a title or \<^verbatim>\<open>undefined\<close>; a boolean).
\<close>

datatype output_event = NewFile string | DeleteFile bool

record handler =
  emitted :: "output_event list"
  settled :: "unit promise"

text \<open>\<^verbatim>\<open>if (title)\<close>: a string is truthy unless it is empty; \<^verbatim>\<open>undefined\<close> is falsy.\<close>

definition onNewFile :: "string option promise \<Rightarrow> handler" where
  "onNewFile promptForTitle =
     (case promptForTitle of
        Rejected error \<Rightarrow> \<lparr>emitted = [], settled = Rejected error\<rparr>
      | Pending \<Rightarrow> \<lparr>emitted = [], settled = Pending\<rparr>
      | Resolved None \<Rightarrow> \<lparr>emitted = [], settled = Resolved ()\<rparr>
      | Resolved (Some title) \<Rightarrow>
          if title \<noteq> [] then \<lparr>emitted = [NewFile title], settled = Resolved ()\<rparr>
          else \<lparr>emitted = [], settled = Resolved ()\<rparr>)"

definition onDeleteFile :: "bool promise \<Rightarrow> handler" where
  "onDeleteFile confirmDeletion =
     (case confirmDeletion of
        Rejected error \<Rightarrow> \<lparr>emitted = [], settled = Rejected error\<rparr>
      | Pending \<Rightarrow> \<lparr>emitted = [], settled = Pending\<rparr>
      | Resolved confirmed \<Rightarrow>
          if confirmed then \<lparr>emitted = [DeleteFile True], settled = Resolved ()\<rparr>
          else \<lparr>emitted = [], settled = Resolved ()\<rparr>)"

section \<open>Concrete surroundings\<close>

text \<open>
  A browser with both pickers in which every step succeeds, and variations of it:
  a cancelled picker, a refused write, a browser without the pickers, and a server
  side rendering context with neither \<^verbatim>\<open>window\<close> nor \<^verbatim>\<open>document\<close>.
\<close>

definition tripHandle :: file_handle where
  "tripHandle = FileSystemFileHandle ''trip.json'' 1"

definition otherHandle :: file_handle where
  "otherHandle = FileSystemFileHandle ''other.json'' 2"

definition tripDocument :: checklist_file where
  "tripDocument = ChecklistFile (Some (ChecklistFileMetadata ''trip'')) []"

definition abortError :: js_error where
  "abortError = JsError ''AbortError'' ''The user aborted a request.''"

definition notAllowedError :: js_error where
  "notAllowedError = JsError ''NotAllowedError'' ''Permission denied''"

definition syntaxError :: js_error where
  "syntaxError = JsError ''SyntaxError'' ''Unexpected end of JSON input''"

definition sampleCodec :: codec where
  "sampleCodec =
     \<lparr>toProto = (\<lambda>file. if file_bytes file = [] then Inl syntaxError else Inr tripDocument),
      fromProto = (\<lambda>checklistFile. Inr (JsFile ''trip.json'' [123, 125]))\<rparr>"

definition nativeEnv :: env where
  "nativeEnv =
     \<lparr>window = Some [''document'', ''showOpenFilePicker'', ''showSaveFilePicker''],
      document = True,
      jsonFormat = sampleCodec,
      showOpenFilePicker = Inr [tripHandle],
      showSaveFilePicker = Inr (Some otherHandle),
      getFile = (\<lambda>h. Inr (JsFile (handle_name h) [123, 125])),
      createWritable = (\<lambda>h. Inr ()),
      writableWrite = (\<lambda>h bytes. Inr ()),
      writableClose = (\<lambda>h. Inr ()),
      createObjectURL = (\<lambda>blob. Inr ''blob:1''),
      inputEvent = NoEvent\<rparr>"

definition cancelledEnv :: env where
  "cancelledEnv =
     nativeEnv\<lparr>showOpenFilePicker := Inl abortError, showSaveFilePicker := Inl abortError\<rparr>"

definition deniedEnv :: env where
  "deniedEnv = nativeEnv\<lparr>createWritable := (\<lambda>h. Inl notAllowedError)\<rparr>"

definition fallbackEnv :: env where
  "fallbackEnv =
     nativeEnv\<lparr>window := Some [''document''],
       inputEvent := Change [JsFile ''broken.json'' []]\<rparr>"

definition ssrEnv :: env where
  "ssrEnv = nativeEnv\<lparr>window := None, document := False\<rparr>"

section \<open>Properties\<close>

lemmas env_defs = nativeEnv_def cancelledEnv_def deniedEnv_def fallbackEnv_def ssrEnv_def
  sampleCodec_def tripHandle_def otherHandle_def tripDocument_def abortError_def
  notAllowedError_def syntaxError_def newLocalFileStorage_def

subsection \<open>Capability detection\<close>

lemma run_replicate_isFileSystemAccessSupported:
  "run (replicate n (IsFileSystemAccessSupported e)) this = this"
  by (induction n) simp_all

text \<open>
  C8. \<^verbatim>\<open>isFileSystemAccessSupported()\<close> returns false when there is no \<^verbatim>\<open>window\<close> and when
  either picker is missing from it, and true when both pickers are on \<^verbatim>\<open>window\<close>. Its
  result depends on the surroundings only, and any number of calls leaves the storage
  as it was.
\<close>

theorem isFileSystemAccessSupported_detects_pickers:
  "(window e = None \<longrightarrow> \<not> isFileSystemAccessSupported e) \<and>
   (\<forall>w. window e = Some w \<and>
      (''showOpenFilePicker'' \<notin> set w \<or> ''showSaveFilePicker'' \<notin> set w) \<longrightarrow>
      \<not> isFileSystemAccessSupported e) \<and>
   (\<forall>w. window e = Some w \<and>
      ''showOpenFilePicker'' \<in> set w \<and> ''showSaveFilePicker'' \<in> set w \<longrightarrow>
      isFileSystemAccessSupported e) \<and>
   run (replicate n (IsFileSystemAccessSupported e)) this = this"
  by (auto simp: isFileSystemAccessSupported_def run_replicate_isFileSystemAccessSupported)

theorem isFileSystemAccessSupported_detects_pickers_witness:
  "\<not> isFileSystemAccessSupported ssrEnv \<and> \<not> isFileSystemAccessSupported fallbackEnv \<and>
   isFileSystemAccessSupported nativeEnv \<and>
   run (replicate 3 (IsFileSystemAccessSupported nativeEnv)) newLocalFileStorage =
     newLocalFileStorage"
proof -
  have a: "window ssrEnv = None"
    by (simp add: env_defs)
  have b: "window fallbackEnv = Some [''document''] \<and>
      (''showOpenFilePicker'' \<notin> set [''document''] \<or>
       ''showSaveFilePicker'' \<notin> set [''document''])"
    by (simp add: env_defs)
  have c: "window nativeEnv =
        Some [''document'', ''showOpenFilePicker'', ''showSaveFilePicker''] \<and>
      ''showOpenFilePicker''
        \<in> set [''document'', ''showOpenFilePicker'', ''showSaveFilePicker''] \<and>
      ''showSaveFilePicker''
        \<in> set [''document'', ''showOpenFilePicker'', ''showSaveFilePicker'']"
    by (simp add: env_defs)
  from a b c
    isFileSystemAccessSupported_detects_pickers [of ssrEnv]
    isFileSystemAccessSupported_detects_pickers [of fallbackEnv]
    isFileSystemAccessSupported_detects_pickers [of nativeEnv 3 newLocalFileStorage]
  show ?thesis by blast
qed

subsection \<open>Cancelled pickers\<close>

text \<open>
  C2. Under the native strategy, a picker that rejects with an error named
  \<^verbatim>\<open>AbortError\<close> makes \<^verbatim>\<open>openFile\<close> resolve to null and \<^verbatim>\<open>saveFile\<close> (when it presents the
  picker) resolve to false: the promise is resolved, so no exception escapes. The
  cancelled \<^verbatim>\<open>openFile\<close> leaves the stored handle as it was.
\<close>

theorem cancelled_picker_gives_negative_result:
  assumes "isFileSystemAccessSupported e" and "error_name error = ''AbortError''"
  shows "(showOpenFilePicker e = Inl error \<longrightarrow>
            outcome (openFile e this) = Resolved None \<and> after (openFile e this) = this) \<and>
         (showSaveFilePicker e = Inl error \<and> (saveAs \<or> currentFileHandle this = None) \<longrightarrow>
            outcome (saveFile e checklistFile saveAs this) = Resolved False)"
  using assms
  by (auto simp: openFile_def openFileWithFSA_def saveFile_def saveFileWithFSA_def
      catchAbort_def)

theorem cancelled_picker_gives_negative_result_witness:
  "outcome (openFile cancelledEnv \<lparr>currentFileHandle = Some tripHandle\<rparr>) = Resolved None \<and>
   after (openFile cancelledEnv \<lparr>currentFileHandle = Some tripHandle\<rparr>) =
     \<lparr>currentFileHandle = Some tripHandle\<rparr> \<and>
   outcome (saveFile cancelledEnv tripDocument True \<lparr>currentFileHandle = Some tripHandle\<rparr>) =
     Resolved False"
proof -
  have a: "isFileSystemAccessSupported cancelledEnv"
    by (simp add: isFileSystemAccessSupported_def env_defs)
  have b: "error_name abortError = ''AbortError''"
    by (simp add: env_defs)
  have c: "showOpenFilePicker cancelledEnv = Inl abortError"
    "showSaveFilePicker cancelledEnv = Inl abortError"
    by (simp_all add: cancelledEnv_def nativeEnv_def)
  from cancelled_picker_gives_negative_result
    [OF a b, of "\<lparr>currentFileHandle = Some tripHandle\<rparr>" True tripDocument] c
  show ?thesis by simp
qed

lemmas native_defs = saveFile_def saveFileWithFSA_def writeChecklist_def catchAbort_def
  openFile_def openFileWithFSA_def

lemma native_env:
  "isFileSystemAccessSupported nativeEnv"
  "isFileSystemAccessSupported cancelledEnv"
  "isFileSystemAccessSupported deniedEnv"
  "\<not> isFileSystemAccessSupported fallbackEnv"
  "\<not> isFileSystemAccessSupported ssrEnv"
  by (simp_all add: isFileSystemAccessSupported_def env_defs)

text \<open>
  C10. Under the native strategy, whatever handle is stored and whatever \<^verbatim>\<open>saveAs\<close> is:
  when \<^verbatim>\<open>saveFile\<close> presents the save picker and the picker rejects with an error named
  \<^verbatim>\<open>AbortError\<close>, the storage after the call is the storage before it and the call
  resolves to false.
\<close>

theorem cancelled_save_keeps_handle:
  assumes "isFileSystemAccessSupported e"
    and "SavePickerShown (suggestedName checklistFile)
           \<in> set (effects (saveFile e checklistFile saveAs this))"
    and "showSaveFilePicker e = Inl error" and "error_name error = ''AbortError''"
  shows "after (saveFile e checklistFile saveAs this) = this \<and>
         outcome (saveFile e checklistFile saveAs this) = Resolved False"
  using assms
  by (auto simp: saveFile_def saveFileWithFSA_def writeChecklist_def catchAbort_def
      split: if_splits option.splits sum.splits)

theorem cancelled_save_keeps_handle_witness:
  "after (saveFile cancelledEnv tripDocument True \<lparr>currentFileHandle = Some tripHandle\<rparr>) =
     \<lparr>currentFileHandle = Some tripHandle\<rparr> \<and>
   outcome (saveFile cancelledEnv tripDocument True \<lparr>currentFileHandle = Some tripHandle\<rparr>) =
     Resolved False \<and>
   after (saveFile cancelledEnv tripDocument False \<lparr>currentFileHandle = None\<rparr>) =
     \<lparr>currentFileHandle = None\<rparr> \<and>
   outcome (saveFile cancelledEnv tripDocument False \<lparr>currentFileHandle = None\<rparr>) =
     Resolved False"
proof -
  have shown: "SavePickerShown (suggestedName tripDocument)
      \<in> set (effects (saveFile cancelledEnv tripDocument True
          \<lparr>currentFileHandle = Some tripHandle\<rparr>))"
    "SavePickerShown (suggestedName tripDocument)
      \<in> set (effects (saveFile cancelledEnv tripDocument False \<lparr>currentFileHandle = None\<rparr>))"
    by (simp_all add: saveFile_def saveFileWithFSA_def isFileSystemAccessSupported_def
        cancelledEnv_def nativeEnv_def)
  have rejected: "showSaveFilePicker cancelledEnv = Inl abortError"
    by (simp add: cancelledEnv_def nativeEnv_def)
  have named: "error_name abortError = ''AbortError''"
    by (simp add: abortError_def)
  from cancelled_save_keeps_handle [OF native_env(2) shown(1) rejected named]
    cancelled_save_keeps_handle [OF native_env(2) shown(2) rejected named]
  show ?thesis by simp
qed

subsection \<open>Saving under the native strategy\<close>

text \<open>
  C3. Under the native strategy \<^verbatim>\<open>saveFile(doc, true)\<close> first presents the save picker,
  with or without a stored handle, and when the picker resolves to a handle that
  handle is the stored one after the call.
\<close>

theorem saveAs_prompts_and_replaces_handle:
  assumes "isFileSystemAccessSupported e"
  shows "(\<exists>rest. effects (saveFile e checklistFile True this) =
            SavePickerShown (suggestedName checklistFile) # rest) \<and>
         (\<forall>h. showSaveFilePicker e = Inr (Some h) \<longrightarrow>
            currentFileHandle (after (saveFile e checklistFile True this)) = Some h)"
  using assms
  by (auto simp: saveFile_def saveFileWithFSA_def writeChecklist_def
      split: option.splits sum.splits)

theorem saveAs_prompts_and_replaces_handle_witness:
  "(\<exists>rest. effects (saveFile nativeEnv tripDocument True \<lparr>currentFileHandle = Some tripHandle\<rparr>) =
      SavePickerShown ''trip.json'' # rest) \<and>
   currentFileHandle
     (after (saveFile nativeEnv tripDocument True \<lparr>currentFileHandle = Some tripHandle\<rparr>)) =
     Some otherHandle"
proof -
  have picked: "showSaveFilePicker nativeEnv = Inr (Some otherHandle)"
    by (simp add: nativeEnv_def)
  have suggested: "suggestedName tripDocument = ''trip.json''"
    by (simp add: suggestedName_def tripDocument_def)
  from saveAs_prompts_and_replaces_handle
    [OF native_env(1), of tripDocument "\<lparr>currentFileHandle = Some tripHandle\<rparr>"]
    picked suggested
  show ?thesis by simp
qed

text \<open>
  C4. Under the native strategy, an \<^verbatim>\<open>openFile\<close> that resolves to a document has stored
  the first handle the picker returned. A following \<^verbatim>\<open>saveFile(doc, false)\<close> presents no
  save picker, starts by opening a writable on that handle and keeps the handle; when
  every step of the write succeeds it writes the encoded bytes to that handle, closes
  it and resolves to true.
\<close>

theorem save_after_open_reuses_handle:
  assumes "isFileSystemAccessSupported e1"
    and "outcome (openFile e1 this) = Resolved (Some opened)"
    and "isFileSystemAccessSupported e2"
  shows "\<exists>h hs. showOpenFilePicker e1 = Inr (h # hs) \<and>
           currentFileHandle (after (openFile e1 this)) = Some h \<and>
           (\<forall>suggested. SavePickerShown suggested
              \<notin> set (effects (saveFile e2 checklistFile False (after (openFile e1 this))))) \<and>
           (\<exists>rest. effects (saveFile e2 checklistFile False (after (openFile e1 this))) =
              CreateWritable h # rest) \<and>
           currentFileHandle (after (saveFile e2 checklistFile False (after (openFile e1 this)))) =
             Some h \<and>
           (\<forall>blob. createWritable e2 h = Inr () \<and>
              fromProto (jsonFormat e2) checklistFile = Inr blob \<and>
              writableWrite e2 h (file_bytes blob) = Inr () \<and> writableClose e2 h = Inr () \<longrightarrow>
              effects (saveFile e2 checklistFile False (after (openFile e1 this))) =
                [CreateWritable h, Write h (file_bytes blob), Close h] \<and>
              outcome (saveFile e2 checklistFile False (after (openFile e1 this))) =
                Resolved True)"
  using assms
  by (auto simp: native_defs split: sum.splits list.splits if_splits)

theorem save_after_open_reuses_handle_witness:
  "outcome (openFile nativeEnv newLocalFileStorage) = Resolved (Some tripDocument) \<and>
   currentFileHandle (after (openFile nativeEnv newLocalFileStorage)) = Some tripHandle \<and>
   effects (saveFile nativeEnv tripDocument False (after (openFile nativeEnv newLocalFileStorage))) =
     [CreateWritable tripHandle, Write tripHandle [123, 125], Close tripHandle] \<and>
   outcome (saveFile nativeEnv tripDocument False (after (openFile nativeEnv newLocalFileStorage))) =
     Resolved True"
proof -
  have opened: "outcome (openFile nativeEnv newLocalFileStorage) = Resolved (Some tripDocument)"
    by (simp add: openFile_def openFileWithFSA_def isFileSystemAccessSupported_def
        nativeEnv_def sampleCodec_def)
  have picker: "showOpenFilePicker nativeEnv = Inr [tripHandle]"
    by (simp add: nativeEnv_def)
  have steps: "createWritable nativeEnv tripHandle = Inr ()"
    "fromProto (jsonFormat nativeEnv) tripDocument = Inr (JsFile ''trip.json'' [123, 125])"
    "writableWrite nativeEnv tripHandle (file_bytes (JsFile ''trip.json'' [123, 125])) = Inr ()"
    "writableClose nativeEnv tripHandle = Inr ()"
    by (simp_all add: nativeEnv_def sampleCodec_def)
  from save_after_open_reuses_handle
    [OF native_env(1) opened native_env(1), of tripDocument] picker
  have "currentFileHandle (after (openFile nativeEnv newLocalFileStorage)) = Some tripHandle \<and>
    (\<forall>blob. createWritable nativeEnv tripHandle = Inr () \<and>
       fromProto (jsonFormat nativeEnv) tripDocument = Inr blob \<and>
       writableWrite nativeEnv tripHandle (file_bytes blob) = Inr () \<and>
       writableClose nativeEnv tripHandle = Inr () \<longrightarrow>
       effects (saveFile nativeEnv tripDocument False
           (after (openFile nativeEnv newLocalFileStorage))) =
         [CreateWritable tripHandle, Write tripHandle (file_bytes blob), Close tripHandle] \<and>
       outcome (saveFile nativeEnv tripDocument False
           (after (openFile nativeEnv newLocalFileStorage))) = Resolved True)"
    by auto
  with opened steps show ?thesis
    by (metis js_file.sel(2))
qed

text \<open>
  C5, as stated, fails in a browser without the pickers: after \<^verbatim>\<open>clearFileHandle()\<close> the
  save presents no picker at all; its only effect is a download.
\<close>

theorem fallback_save_after_clear_counterexample:
  "\<not> isFileSystemAccessSupported fallbackEnv \<and>
   effects (saveFile fallbackEnv tripDocument False (clearFileHandle newLocalFileStorage)) =
     [Download ''blob:1'' ''trip.json'']"
  by (simp add: saveFile_def saveFileWithFallback_def isFileSystemAccessSupported_def
      fallbackEnv_def nativeEnv_def sampleCodec_def)

text \<open>
  C5, amended. Under the native strategy the \<^verbatim>\<open>saveFile\<close> call that follows
  \<^verbatim>\<open>clearFileHandle()\<close> first presents the save picker, whatever \<^verbatim>\<open>saveAs\<close> is. Under the
  fallback strategy it presents no save picker.
\<close>

theorem save_after_clearFileHandle:
  "(isFileSystemAccessSupported e \<longrightarrow>
      (\<exists>rest. effects (saveFile e checklistFile saveAs (clearFileHandle this)) =
         SavePickerShown (suggestedName checklistFile) # rest)) \<and>
   (\<not> isFileSystemAccessSupported e \<longrightarrow>
      (\<forall>suggested. SavePickerShown suggested
         \<notin> set (effects (saveFile e checklistFile saveAs (clearFileHandle this)))))"
  by (auto simp: saveFile_def saveFileWithFSA_def saveFileWithFallback_def writeChecklist_def
      clearFileHandle_def split: sum.splits option.splits if_splits)

theorem save_after_clearFileHandle_witness:
  "(\<exists>rest. effects (saveFile nativeEnv tripDocument False
        (clearFileHandle \<lparr>currentFileHandle = Some tripHandle\<rparr>)) =
      SavePickerShown ''trip.json'' # rest) \<and>
   SavePickerShown ''trip.json''
     \<notin> set (effects (saveFile fallbackEnv tripDocument False
         (clearFileHandle \<lparr>currentFileHandle = Some tripHandle\<rparr>)))"
proof -
  have suggested: "suggestedName tripDocument = ''trip.json''"
    by (simp add: suggestedName_def tripDocument_def)
  from save_after_clearFileHandle
      [of nativeEnv tripDocument False "\<lparr>currentFileHandle = Some tripHandle\<rparr>"]
    save_after_clearFileHandle
      [of fallbackEnv tripDocument False "\<lparr>currentFileHandle = Some tripHandle\<rparr>"]
    native_env(1) native_env(4) suggested
  show ?thesis by simp
qed

subsection \<open>The fallback strategy\<close>

text \<open>
  C6, as stated, fails where there is neither \<^verbatim>\<open>window\<close> nor \<^verbatim>\<open>document\<close> (the server
  side rendering context the capability check names): the encoding succeeds, yet
  \<^verbatim>\<open>saveFile\<close> resolves to false, having logged the \<^verbatim>\<open>ReferenceError\<close> and downloaded
  nothing.
\<close>

theorem fallback_save_without_document_counterexample:
  "\<not> isFileSystemAccessSupported ssrEnv \<and>
   fromProto (jsonFormat ssrEnv) tripDocument = Inr (JsFile ''trip.json'' [123, 125]) \<and>
   saveFile ssrEnv tripDocument False newLocalFileStorage =
     \<lparr>after = newLocalFileStorage,
      effects = [ConsoleError ''Failed to save file:''
        (JsError ''ReferenceError'' ''document is not defined'')],
      outcome = Resolved False\<rparr>"
  by (simp add: saveFile_def saveFileWithFallback_def isFileSystemAccessSupported_def
      ssrEnv_def nativeEnv_def sampleCodec_def)

text \<open>
  C6, amended. Without the capability, \<^verbatim>\<open>saveFile(doc, saveAs)\<close> never changes the stored
  handle and always resolves, to true or to false. It resolves to true exactly when the
  encoding, \<^verbatim>\<open>URL.createObjectURL\<close> and the access to \<^verbatim>\<open>document\<close> all succeed, and its one
  effect is then a download under the name of the codec's blob. It resolves to false
  exactly when one of them throws, and its one effect is then the logged failure; a
  failed encoding in particular is logged and gives false.
\<close>

theorem fallback_save_downloads_or_logs:
  assumes "\<not> isFileSystemAccessSupported e"
  shows "after (saveFile e checklistFile saveAs this) = this \<and>
         (outcome (saveFile e checklistFile saveAs this) = Resolved True \<or>
          outcome (saveFile e checklistFile saveAs this) = Resolved False) \<and>
         (outcome (saveFile e checklistFile saveAs this) = Resolved True \<longleftrightarrow>
            (\<exists>blob url. fromProto (jsonFormat e) checklistFile = Inr blob \<and>
               createObjectURL e blob = Inr url \<and> document e)) \<and>
         (\<forall>blob url. fromProto (jsonFormat e) checklistFile = Inr blob \<and>
            createObjectURL e blob = Inr url \<and> document e \<longrightarrow>
            effects (saveFile e checklistFile saveAs this) = [Download url (file_name blob)]) \<and>
         (outcome (saveFile e checklistFile saveAs this) = Resolved False \<longrightarrow>
            (\<exists>error. effects (saveFile e checklistFile saveAs this) =
               [ConsoleError ''Failed to save file:'' error])) \<and>
         (\<forall>error. fromProto (jsonFormat e) checklistFile = Inl error \<longrightarrow>
            outcome (saveFile e checklistFile saveAs this) = Resolved False \<and>
            effects (saveFile e checklistFile saveAs this) =
              [ConsoleError ''Failed to save file:'' error])"
  using assms
  by (auto simp: saveFile_def saveFileWithFallback_def split: sum.splits)

theorem fallback_save_downloads_or_logs_witness:
  "after (saveFile fallbackEnv tripDocument False newLocalFileStorage) = newLocalFileStorage \<and>
   outcome (saveFile fallbackEnv tripDocument False newLocalFileStorage) = Resolved True \<and>
   effects (saveFile fallbackEnv tripDocument False newLocalFileStorage) =
     [Download ''blob:1'' ''trip.json'']"
proof -
  have steps:
    "fromProto (jsonFormat fallbackEnv) tripDocument = Inr (JsFile ''trip.json'' [123, 125])"
    "createObjectURL fallbackEnv (JsFile ''trip.json'' [123, 125]) = Inr ''blob:1''"
    "document fallbackEnv"
    by (simp_all add: fallbackEnv_def nativeEnv_def sampleCodec_def)
  from fallback_save_downloads_or_logs
    [OF native_env(4), of tripDocument False newLocalFileStorage] steps
  show ?thesis by auto
qed

text \<open>
  C7. Without the capability, when the hidden input reports a selected file that the
  codec fails to decode, \<^verbatim>\<open>openFile\<close> resolves to null (nothing is thrown), the decode
  error is logged, and the storage is unchanged.
\<close>

theorem fallback_open_decode_failure:
  assumes "\<not> isFileSystemAccessSupported e" and "document e"
    and "inputEvent e = Change (file # files)"
    and "toProto (jsonFormat e) file = Inl error"
  shows "outcome (openFile e this) = Resolved None \<and>
         effects (openFile e this) =
           [InputClicked, ConsoleError ''Failed to parse file:'' error] \<and>
         after (openFile e this) = this"
  using assms by (simp add: openFile_def openFileWithFallback_def)

theorem fallback_open_decode_failure_witness:
  "outcome (openFile fallbackEnv newLocalFileStorage) = Resolved None \<and>
   effects (openFile fallbackEnv newLocalFileStorage) =
     [InputClicked, ConsoleError ''Failed to parse file:'' syntaxError] \<and>
   after (openFile fallbackEnv newLocalFileStorage) = newLocalFileStorage"
proof -
  have doc: "document fallbackEnv"
    by (simp add: fallbackEnv_def nativeEnv_def)
  have selected: "inputEvent fallbackEnv = Change (JsFile ''broken.json'' [] # [])"
    by (simp add: fallbackEnv_def nativeEnv_def)
  have broken: "toProto (jsonFormat fallbackEnv) (JsFile ''broken.json'' []) = Inl syntaxError"
    by (simp add: fallbackEnv_def nativeEnv_def sampleCodec_def)
  show ?thesis
    by (rule fallback_open_decode_failure [OF native_env(4) doc selected broken])
qed

subsection \<open>The command bar\<close>

text \<open>
  C9. \<^verbatim>\<open>onNewFile\<close> emits \<^verbatim>\<open>newFile\<close> with the title exactly when the title dialog resolves
  to a non-empty string, and emits nothing otherwise. \<^verbatim>\<open>onDeleteFile\<close> emits
  \<^verbatim>\<open>deleteFile\<close> with true exactly when the confirmation resolves to true, and emits
  nothing otherwise.
\<close>

theorem commandBar_emits_on_confirmation:
  "(emitted (onNewFile promptForTitle) = [NewFile title] \<longleftrightarrow>
      promptForTitle = Resolved (Some title) \<and> title \<noteq> []) \<and>
   (\<not> (\<exists>t. promptForTitle = Resolved (Some t) \<and> t \<noteq> []) \<longrightarrow>
      emitted (onNewFile promptForTitle) = []) \<and>
   (emitted (onDeleteFile confirmDeletion) = [DeleteFile True] \<longleftrightarrow>
      confirmDeletion = Resolved True) \<and>
   (confirmDeletion \<noteq> Resolved True \<longrightarrow> emitted (onDeleteFile confirmDeletion) = [])"
  by (auto simp: onNewFile_def onDeleteFile_def split: promise.splits option.splits)

theorem commandBar_emits_on_confirmation_witness:
  "emitted (onNewFile (Resolved (Some ''Trip''))) = [NewFile ''Trip''] \<and>
   emitted (onNewFile (Resolved (Some []))) = [] \<and>
   emitted (onNewFile (Resolved None)) = [] \<and>
   emitted (onDeleteFile (Resolved True)) = [DeleteFile True] \<and>
   emitted (onDeleteFile (Resolved False)) = []"
  using commandBar_emits_on_confirmation [of "Resolved (Some ''Trip'')" "''Trip''" "Resolved True"]
    commandBar_emits_on_confirmation [of "Resolved (Some [])" "[]" "Resolved False"]
    commandBar_emits_on_confirmation [of "Resolved None" "[]" "Resolved False"]
  by simp

subsection \<open>Where a held handle comes from\<close>















end
